theory Spec2Isabelle
  imports Complex_Main "HOL-Library.List_Lexorder"
begin

section \<open>Values of the engagement pipeline\<close>

text \<open>
  The model follows \<open>src/engagement_analysis.py\<close>. A Python \<open>str\<close> is a sequence of
  Unicode code points, so text is a list of code points (natural numbers), ordered
  lexicographically by code point as Python compares strings. Column names are the ASCII
  names of the source and are kept as HOL strings.

  Numbers are idealised: a finite double is the rational it denotes, arithmetic on finite
  values is exact (no rounding error, no overflow, no infinities), and NaN is a value of
  its own.
\<close>

type_synonym ustr = "nat list"

definition u :: "string \<Rightarrow> ustr" where
  "u s = map of_char s"

datatype fl = NaN | Fin rat

datatype py_error = TypeError | ValueError | KeyError

text \<open>
  A cell of a DataFrame column: a missing value (NaN), a text, or a number.
\<close>

datatype cell = NA | Txt ustr | Num rat

text \<open>
  A DataFrame: \<open>shape[0]\<close> and the columns in order, each a name and its cells.
\<close>

record table =
  nrows :: nat
  cols :: "(string \<times> cell list) list"

definition wf_table :: "table \<Rightarrow> bool" where
  "wf_table df = (distinct (map fst (cols df)) \<and> list_all (\<lambda>(n, cs). length cs = nrows df) (cols df))"

text \<open>
  What the code takes from the interpreter and from pandas and is not under \<open>src/\<close>: the
  Unicode case tables used by \<open>str.title\<close> (\<open>_PyUnicode_ToTitleFull\<close>, \<open>lower_ucs4\<close>,
  which sees the whole string and the position for the final sigma, \<open>_PyUnicode_IsCased\<close>),
  the number grammar of \<open>pd.to_numeric\<close>, the text of a float (\<open>astype(str)\<close>) and the number
  grammar of \<open>float(str)\<close>. They are a parameter of every function that uses them.
\<close>

record pylib =
  to_title_full :: "nat \<Rightarrow> ustr"
  lower_ucs4 :: "ustr \<Rightarrow> nat \<Rightarrow> nat \<Rightarrow> ustr"
  is_cased :: "nat \<Rightarrow> bool"
  parse_numeric :: "ustr \<Rightarrow> rat option"
  float_repr :: "rat \<Rightarrow> ustr"
  float_of_str :: "ustr \<Rightarrow> fl option"

section \<open>Text: strip and title\<close>

text \<open>
  \<open>str.isspace\<close> on one code point: the code points of \<open>_PyUnicode_IsWhitespace\<close>.
\<close>

definition is_space :: "nat \<Rightarrow> bool" where
  "is_space c = ((9 \<le> c \<and> c \<le> 13) \<or> (28 \<le> c \<and> c \<le> 32) \<or> c = 133 \<or> c = 160 \<or> c = 5760
     \<or> (8192 \<le> c \<and> c \<le> 8202) \<or> c = 8232 \<or> c = 8233 \<or> c = 8239 \<or> c = 8287 \<or> c = 12288)"

definition py_strip :: "ustr \<Rightarrow> ustr" where
  "py_strip s = rev (dropWhile is_space (rev (dropWhile is_space s)))"

text \<open>
  \<open>str.title\<close> is the loop of \<open>do_title\<close>:
  \<^verbatim>\<open>
  previous_is_cased = 0
  for i in range(length):
      c = data[i]
      mapped = lower_ucs4(data, i, c) if previous_is_cased else ToTitleFull(c)
      res += mapped
      previous_is_cased = IsCased(c)
  \<close>
\<close>

fun do_title :: "pylib \<Rightarrow> ustr \<Rightarrow> nat \<Rightarrow> bool \<Rightarrow> ustr \<Rightarrow> ustr" where
  "do_title L data i previous_is_cased [] = []"
| "do_title L data i previous_is_cased (c # cs) =
     (if previous_is_cased then lower_ucs4 L data i c else to_title_full L c)
       @ do_title L data (Suc i) (is_cased L c) cs"

definition py_title :: "pylib \<Rightarrow> ustr \<Rightarrow> ustr" where
  "py_title L s = do_title L s 0 False s"

text \<open>
  \<open>Series.astype(str)\<close> on one cell, and the normalisation
  \<open>.astype(str).str.strip().str.title()\<close> of a categorical column.
\<close>

definition astype_str :: "pylib \<Rightarrow> cell \<Rightarrow> ustr" where
  "astype_str L c = (case c of NA \<Rightarrow> u ''nan'' | Txt s \<Rightarrow> s | Num q \<Rightarrow> float_repr L q)"

definition normalize_str :: "pylib \<Rightarrow> ustr \<Rightarrow> ustr" where
  "normalize_str L s = py_title L (py_strip s)"

definition normalize_cell :: "pylib \<Rightarrow> cell \<Rightarrow> cell" where
  "normalize_cell L c = Txt (normalize_str L (astype_str L c))"

section \<open>Numbers: coercion, mean, rounding\<close>

text \<open>
  \<open>pd.to_numeric(..., errors="coerce")\<close> on one cell: a text that is not a number
  becomes the missing value.
\<close>

definition to_numeric :: "pylib \<Rightarrow> cell \<Rightarrow> cell" where
  "to_numeric L c =
     (case c of NA \<Rightarrow> NA | Num q \<Rightarrow> Num q
      | Txt s \<Rightarrow> (case parse_numeric L s of None \<Rightarrow> NA | Some q \<Rightarrow> Num q))"

text \<open>
  The numbers of a numeric column, missing values skipped (\<open>skipna\<close>). The columns that
  reach it have been through \<open>to_numeric\<close> and hold no text.
\<close>

fun dropna_values :: "cell list \<Rightarrow> rat list" where
  "dropna_values [] = []"
| "dropna_values (Num q # cs) = q # dropna_values cs"
| "dropna_values (c # cs) = dropna_values cs"

definition series_mean :: "cell list \<Rightarrow> fl" where
  "series_mean cs =
     (let vs = dropna_values cs in if vs = [] then NaN else Fin (sum_list vs / of_nat (length vs)))"

definition series_sum :: "cell list \<Rightarrow> fl" where
  "series_sum cs = Fin (sum_list (dropna_values cs))"

definition series_count :: "cell list \<Rightarrow> fl" where
  "series_count cs = Fin (of_nat (length (filter (\<lambda>c. c \<noteq> NA) cs)))"

definition round_half_even :: "rat \<Rightarrow> int" where
  "round_half_even x =
     (let f = \<lfloor>x\<rfloor>; d = x - of_int f
      in if d < 1 / 2 then f else if 1 / 2 < d then f + 1 else if even f then f else f + 1)"

definition py_round :: "fl \<Rightarrow> nat \<Rightarrow> fl" where
  "py_round x ndigits =
     (case x of NaN \<Rightarrow> NaN | Fin q \<Rightarrow> Fin (of_int (round_half_even (q * 10 ^ ndigits)) / 10 ^ ndigits))"

definition isnan :: "fl \<Rightarrow> bool" where
  "isnan x = (x = NaN)"

text \<open>
  \<^verbatim>\<open>
  def _safe_divide(numerator, denominator):
      return float(numerator) / float(denominator) if float(denominator or 0) != 0 else 0.0
  \<close>
\<close>

definition safe_divide :: "int \<Rightarrow> int \<Rightarrow> fl" where
  "safe_divide numerator denominator =
     (if (of_int (if denominator \<noteq> 0 then denominator else 0) :: rat) \<noteq> 0
      then Fin (of_int numerator / of_int denominator) else Fin 0)"

section \<open>Columns of a table\<close>

definition columns :: "table \<Rightarrow> string list" where
  "columns df = map fst (cols df)"

text \<open>\<open>df[col] = f(df[col])\<close>, cell by cell, for a column that is present.\<close>

definition assign_map :: "(cell \<Rightarrow> cell) \<Rightarrow> table \<Rightarrow> string \<Rightarrow> table" where
  "assign_map f df col = df\<lparr>cols := map (\<lambda>(n, cs). if n = col then (n, map f cs) else (n, cs)) (cols df)\<rparr>"

definition coerce_col :: "pylib \<Rightarrow> table \<Rightarrow> string \<Rightarrow> table" where
  "coerce_col L df col = (if col \<in> set (columns df) then assign_map (to_numeric L) df col else df)"

definition normalize_col :: "pylib \<Rightarrow> table \<Rightarrow> string \<Rightarrow> table" where
  "normalize_col L df col = (if col \<in> set (columns df) then assign_map (normalize_cell L) df col else df)"

section \<open>compute\_kpis\<close>

record kpis =
  total_players :: nat
  average_session_duration_minutes :: fl
  average_sessions_per_week :: fl
  average_purchases_per_user :: fl
  retention_rate_high_engagement :: fl

definition numeric_cols :: "string list" where
  "numeric_cols = [''PlayTimeHours'', ''InGamePurchases'', ''SessionsPerWeek'',
     ''AvgSessionDurationMinutes'', ''PlayerLevel'', ''AchievementsUnlocked'']"

text \<open>
  \<open>float(df_local[c].mean()) if c in df_local else np.nan\<close>
\<close>

definition mean_if_present :: "table \<Rightarrow> string \<Rightarrow> fl" where
  "mean_if_present df c = (case map_of (cols df) c of Some cs \<Rightarrow> series_mean cs | None \<Rightarrow> NaN)"

text \<open>\<open>round(x, n) if not np.isnan(x) else np.nan\<close>\<close>

definition round_unless_nan :: "fl \<Rightarrow> nat \<Rightarrow> fl" where
  "round_unless_nan x n = (if \<not> isnan x then py_round x n else NaN)"

definition compute_kpis :: "pylib \<Rightarrow> table \<Rightarrow> kpis" where
  "compute_kpis L df =
     (let df_local = foldl (coerce_col L) df numeric_cols;
          df_local = normalize_col L df_local ''EngagementLevel'';
          total = nrows df_local;
          avg_session_duration = mean_if_present df_local ''AvgSessionDurationMinutes'';
          avg_sessions_per_week = mean_if_present df_local ''SessionsPerWeek'';
          avg_purchases_per_user = mean_if_present df_local ''InGamePurchases'';
          retention_rate =
            (case map_of (cols df_local) ''EngagementLevel'' of
               None \<Rightarrow> NaN
             | Some cs \<Rightarrow>
                 (let high_count = length (filter (\<lambda>c. c = Txt (u ''High'')) cs)
                  in safe_divide (int high_count) (int total)))
      in \<lparr> total_players = total,
           average_session_duration_minutes = round_unless_nan avg_session_duration 2,
           average_sessions_per_week = round_unless_nan avg_sessions_per_week 2,
           average_purchases_per_user = round_unless_nan avg_purchases_per_user 2,
           retention_rate_high_engagement = round_unless_nan retention_rate 4 \<rparr>)"

section \<open>The percentage formatter\<close>

text \<open>The argument of \<open>_format_percentage\<close> can be any Python value.\<close>

datatype pyval = PyFloat fl | PyInt int | PyStr ustr | PyNone

text \<open>\<open>float(x)\<close>: a text outside the grammar raises ValueError, \<open>None\<close> raises TypeError.\<close>

definition py_float :: "pylib \<Rightarrow> pyval \<Rightarrow> py_error + fl" where
  "py_float L x =
     (case x of PyFloat f \<Rightarrow> Inr f | PyInt i \<Rightarrow> Inr (Fin (of_int i))
      | PyStr s \<Rightarrow> (case float_of_str L s of None \<Rightarrow> Inl ValueError | Some f \<Rightarrow> Inr f)
      | PyNone \<Rightarrow> Inl TypeError)"

definition fl_mul :: "fl \<Rightarrow> fl \<Rightarrow> fl" where
  "fl_mul a b = (case (a, b) of (Fin x, Fin y) \<Rightarrow> Fin (x * y) | _ \<Rightarrow> NaN)"

fun digits :: "nat \<Rightarrow> ustr" where
  "digits n = (if n < 10 then [48 + n] else digits (n div 10) @ [48 + n mod 10])"

declare digits.simps [simp del]

text \<open>
  The format \<open>.2f\<close>: the value rounded to hundredths (half to even), a sign for a negative
  value, the integer part, a point and two digits; NaN prints as \<open>nan\<close>.
\<close>

definition format_2f :: "fl \<Rightarrow> ustr" where
  "format_2f x =
     (case x of NaN \<Rightarrow> u ''nan''
      | Fin q \<Rightarrow>
          (let n = nat (round_half_even (\<bar>q\<bar> * 100))
           in (if q < 0 then u ''-'' else []) @ digits (n div 100) @ u ''.''
                @ [48 + (n mod 100) div 10, 48 + n mod 10]))"

text \<open>
  \<^verbatim>\<open>
  def _format_percentage(x):
      try:
          return f"{100.0 * float(x):.2f}%"
      except Exception:
          return "n/a"
  \<close>
\<close>

definition format_percentage :: "pylib \<Rightarrow> pyval \<Rightarrow> ustr" where
  "format_percentage L x =
     (case py_float L x of
        Inr f \<Rightarrow> format_2f (fl_mul (Fin 100) f) @ u ''%''
      | Inl e \<Rightarrow> u ''n/a'')"

section \<open>segment\_analysis\<close>

text \<open>
  \<^verbatim>\<open>
  aggregations = {
      "AvgSessionDurationMinutes": "mean",
      "SessionsPerWeek": "mean",
      "InGamePurchases": ["mean", "sum"],
      "PlayerID": "count",
  }
  \<close>
  A value of the dict is one function name or a list of them.
\<close>

datatype agg_how = AggMean | AggSum | AggCount

datatype agg_spec = One agg_how | Many "agg_how list"

definition aggregations :: "(string \<times> agg_spec) list" where
  "aggregations =
     [(''AvgSessionDurationMinutes'', One AggMean),
      (''SessionsPerWeek'', One AggMean),
      (''InGamePurchases'', Many [AggMean, AggSum]),
      (''PlayerID'', One AggCount)]"

definition how_name :: "agg_how \<Rightarrow> string" where
  "how_name h = (case h of AggMean \<Rightarrow> ''mean'' | AggSum \<Rightarrow> ''sum'' | AggCount \<Rightarrow> ''count'')"

definition hows :: "agg_spec \<Rightarrow> agg_how list" where
  "hows v = (case v of One h \<Rightarrow> [h] | Many hs \<Rightarrow> hs)"

definition is_many :: "agg_spec \<Rightarrow> bool" where
  "is_many v = (case v of One h \<Rightarrow> False | Many hs \<Rightarrow> True)"

text \<open>
  The group aggregations of pandas: \<open>mean\<close> and \<open>sum\<close> skip missing values (the sum of no
  value is 0, the mean of no value is NaN), \<open>count\<close> counts the cells that are not missing.
\<close>

definition apply_agg :: "agg_how \<Rightarrow> cell list \<Rightarrow> fl" where
  "apply_agg h cs = (case h of AggMean \<Rightarrow> series_mean cs | AggSum \<Rightarrow> series_sum cs | AggCount \<Rightarrow> series_count cs)"

text \<open>
  The column labels of an aggregated frame: plain names when every function is given as
  one name, pairs (column, function) as soon as one column has a list of functions.
\<close>

datatype col_label = Flat string | Multi string string

text \<open>
  The result of \<open>groupby(col).agg(...)\<close>: the group keys as the index, and the aggregated
  columns.
\<close>

record 'l grouped =
  gindex :: "ustr list"
  gcolumns :: "('l \<times> fl list) list"

fun text_values :: "cell list \<Rightarrow> ustr list" where
  "text_values [] = []"
| "text_values (Txt s # cs) = s # text_values cs"
| "text_values (c # cs) = text_values cs"

text \<open>\<open>groupby\<close> sorts the distinct keys (\<open>sort=True\<close>) and drops missing keys.\<close>

definition group_keys :: "cell list \<Rightarrow> ustr list" where
  "group_keys key_cells = sort (remdups (text_values key_cells))"

definition group_cells :: "cell list \<Rightarrow> ustr \<Rightarrow> cell list \<Rightarrow> cell list" where
  "group_cells key_cells k cs = map snd (filter (\<lambda>(kc, v). kc = Txt k) (zip key_cells cs))"

definition agg_column :: "cell list \<Rightarrow> ustr list \<Rightarrow> cell list \<Rightarrow> agg_how \<Rightarrow> fl list" where
  "agg_column key_cells keys cs h = map (\<lambda>k. apply_agg h (group_cells key_cells k cs)) keys"

definition column :: "table \<Rightarrow> string \<Rightarrow> cell list" where
  "column df k = (case map_of (cols df) k of Some cs \<Rightarrow> cs | None \<Rightarrow> [])"

text \<open>
  \<open>df.groupby(col).agg(aggs)\<close>. A key of \<open>aggs\<close> that is no column raises KeyError, and
  an empty \<open>aggs\<close> raises ValueError (pandas has no result to concatenate).
\<close>

definition groupby_agg :: "table \<Rightarrow> cell list \<Rightarrow> (string \<times> agg_spec) list \<Rightarrow> py_error + col_label grouped" where
  "groupby_agg df key_cells aggs =
     (if \<not> list_all (\<lambda>(k, v). k \<in> set (columns df)) aggs then Inl KeyError
      else if aggs = [] then Inl ValueError
      else
        (let keys = group_keys key_cells;
             multi = list_ex (\<lambda>(k, v). is_many v) aggs
         in Inr \<lparr> gindex = keys,
                  gcolumns = concat (map (\<lambda>(k, v).
                     map (\<lambda>h. (if multi then Multi k (how_name h) else Flat k,
                                agg_column key_cells keys (column df k) h)) (hows v)) aggs) \<rparr>))"

text \<open>
  \<^verbatim>\<open>
  grouped.columns = [
      "_".join([c for c in map(str, col_tuple) if c != ""]).strip("_")
      for col_tuple in grouped.columns.values
  ]
  \<close>
  \<open>map(str, col_tuple)\<close> runs over the two components of a pair, and over the
  characters of a plain name.
\<close>

definition label_parts :: "col_label \<Rightarrow> string list" where
  "label_parts l = (case l of Multi a b \<Rightarrow> [a, b] | Flat s \<Rightarrow> map (\<lambda>c. [c]) s)"

fun join_underscore :: "string list \<Rightarrow> string" where
  "join_underscore [] = []"
| "join_underscore [x] = x"
| "join_underscore (x # y # ys) = x @ ''_'' @ join_underscore (y # ys)"

definition strip_underscore :: "string \<Rightarrow> string" where
  "strip_underscore s =
     rev (dropWhile (\<lambda>c. c = CHR ''_'') (rev (dropWhile (\<lambda>c. c = CHR ''_'') s)))"

definition flatten_label :: "col_label \<Rightarrow> string" where
  "flatten_label l = strip_underscore (join_underscore (filter (\<lambda>c. c \<noteq> []) (label_parts l)))"

text \<open>\<open>grouped.rename(columns={"PlayerID_count": "num_players"})\<close>\<close>

definition rename_label :: "string \<Rightarrow> string" where
  "rename_label l = (if l = ''PlayerID_count'' then ''num_players'' else l)"

text \<open>
  A column of a segment table: the group keys, or numbers. A segment table is its columns
  in order; \<open>pd.DataFrame()\<close> has none.
\<close>

datatype series = KeyCol "ustr list" | NumCol "fl list"

type_synonym frame = "(string \<times> series) list"

definition reset_index :: "string \<Rightarrow> string grouped \<Rightarrow> frame" where
  "reset_index col g = (col, KeyCol (gindex g)) # map (\<lambda>(l, vs). (l, NumCol vs)) (gcolumns g)"

text \<open>
  \<open>nargsort(items, ascending=False, na_position="last")\<close> of pandas: the positions of the
  values that are not missing are reversed, sorted ascending and reversed again, and the
  positions of the missing values come last. The sort is taken to be stable, which is what
  the two reversals are written for.
\<close>

definition nargsort_desc :: "('a::linorder) option list \<Rightarrow> nat list" where
  "nargsort_desc items =
     (let idx = zip items [0..<length items];
          non_nans = List.map_filter (\<lambda>(x, i). map_option (\<lambda>v. (v, i)) x) idx;
          nan_idx = map snd (filter (\<lambda>(x, i). x = None) idx);
          indexer = map snd (rev (sort_key fst (rev non_nans)))
      in indexer @ nan_idx)"

definition fl_value :: "fl \<Rightarrow> rat option" where
  "fl_value x = (case x of NaN \<Rightarrow> None | Fin q \<Rightarrow> Some q)"

definition series_argsort_desc :: "series \<Rightarrow> nat list" where
  "series_argsort_desc s =
     (case s of KeyCol ks \<Rightarrow> nargsort_desc (map Some ks) | NumCol vs \<Rightarrow> nargsort_desc (map fl_value vs))"

definition series_take :: "nat list \<Rightarrow> series \<Rightarrow> series" where
  "series_take indexer s =
     (case s of KeyCol ks \<Rightarrow> KeyCol (map (\<lambda>i. ks ! i) indexer)
      | NumCol vs \<Rightarrow> NumCol (map (\<lambda>i. vs ! i) indexer))"

text \<open>\<open>frame.sort_values(by=label, ascending=False)\<close>; an unknown label raises KeyError.\<close>

definition sort_values_desc :: "frame \<Rightarrow> string \<Rightarrow> py_error + frame" where
  "sort_values_desc fr label =
     (case map_of fr label of
        None \<Rightarrow> Inl KeyError
      | Some s \<Rightarrow> (let indexer = series_argsort_desc s in Inr (map (\<lambda>(l, c). (l, series_take indexer c)) fr)))"

text \<open>
  \<^verbatim>\<open>
  def group_by(col):
      available_aggs = {k: v for k, v in aggregations.items() if k in df_local.columns}
      if col not in df_local.columns:
          return pd.DataFrame()
      grouped = df_local.groupby(col).agg(available_aggs)
      grouped.columns = [...]
      grouped = grouped.rename(columns={"PlayerID_count": "num_players"})
      return grouped.reset_index().sort_values(
          by=grouped.columns[1] if grouped.shape[1] > 1 else col, ascending=False)
  \<close>
  In the last line \<open>grouped\<close> is still the frame before \<open>reset_index\<close>: its columns are
  the aggregated columns only.
\<close>

definition group_by :: "table \<Rightarrow> string \<Rightarrow> py_error + frame" where
  "group_by df_local col =
     (let available_aggs = filter (\<lambda>(k, v). k \<in> set (columns df_local)) aggregations
      in case map_of (cols df_local) col of
           None \<Rightarrow> Inr []
         | Some key_cells \<Rightarrow>
             (case groupby_agg df_local key_cells available_aggs of
                Inl e \<Rightarrow> Inl e
              | Inr g \<Rightarrow>
                  (let flat = \<lparr> gindex = gindex g, gcolumns = map (\<lambda>(l, vs). (flatten_label l, vs)) (gcolumns g) \<rparr>;
                       grouped = \<lparr> gindex = gindex flat, gcolumns = map (\<lambda>(l, vs). (rename_label l, vs)) (gcolumns flat) \<rparr>
                   in sort_values_desc (reset_index col grouped)
                        (if length (gcolumns grouped) > 1 then fst (gcolumns grouped ! 1) else col))))"

record segments =
  by_genre :: frame
  by_location :: frame
  by_engagement :: frame

definition prepare_segments :: "pylib \<Rightarrow> table \<Rightarrow> table" where
  "prepare_segments L df =
     (let df_local = foldl (coerce_col L) df [''AvgSessionDurationMinutes'', ''SessionsPerWeek'', ''InGamePurchases'']
      in foldl (normalize_col L) df_local [''GameGenre'', ''Location'', ''EngagementLevel''])"

definition segment_analysis :: "pylib \<Rightarrow> table \<Rightarrow> py_error + segments" where
  "segment_analysis L df =
     (let df_local = prepare_segments L df
      in case group_by df_local ''GameGenre'' of
           Inl e \<Rightarrow> Inl e
         | Inr g \<Rightarrow>
             (case group_by df_local ''Location'' of
                Inl e \<Rightarrow> Inl e
              | Inr l \<Rightarrow>
                  (case group_by df_local ''EngagementLevel'' of
                     Inl e \<Rightarrow> Inl e
                   | Inr e \<Rightarrow> Inr \<lparr> by_genre = g, by_location = l, by_engagement = e \<rparr>)))"

section \<open>A fragment of the library tables\<close>

text \<open>
  For evaluation at concrete inputs: the case tables on ASCII letters, on U+01F0 (small j
  with caron, a cased letter whose title case is \<open>J\<close> followed by U+030C) and on U+030C
  (combining caron, not cased); every other code point is left as it is. Numbers are read
  and written in plain decimal notation (sign, digits, an optional point and digits).
\<close>

definition is_digit :: "nat \<Rightarrow> bool" where
  "is_digit c = (48 \<le> c \<and> c \<le> 57)"

fun digits_value :: "nat \<Rightarrow> ustr \<Rightarrow> nat" where
  "digits_value acc [] = acc"
| "digits_value acc (c # cs) = digits_value (10 * acc + (c - 48)) cs"

definition parse_unsigned :: "ustr \<Rightarrow> rat option" where
  "parse_unsigned s =
     (let ip = takeWhile is_digit s; rest = dropWhile is_digit s
      in if ip = [] then None
         else (case rest of
                 [] \<Rightarrow> Some (of_nat (digits_value 0 ip))
               | c # fr \<Rightarrow>
                   if c = 46 \<and> list_all is_digit fr
                   then Some (of_nat (digits_value 0 ip) + of_nat (digits_value 0 fr) / 10 ^ length fr)
                   else None))"

definition parse_decimal :: "ustr \<Rightarrow> rat option" where
  "parse_decimal s =
     (case py_strip s of
        [] \<Rightarrow> None
      | c # r \<Rightarrow>
          if c = 45 then map_option uminus (parse_unsigned r)
          else if c = 43 then parse_unsigned r
          else parse_unsigned (c # r))"

fun repr_places :: "nat \<Rightarrow> rat \<Rightarrow> nat \<Rightarrow> nat" where
  "repr_places 0 q k = k"
| "repr_places (Suc fuel) q k =
     (if of_int \<lfloor>q * 10 ^ k\<rfloor> = q * 10 ^ k then k else repr_places fuel q (Suc k))"

definition decimal_repr :: "rat \<Rightarrow> ustr" where
  "decimal_repr q =
     (let k = repr_places 16 q 1;
          n = nat (round_half_even (\<bar>q\<bar> * 10 ^ k));
          fr = digits (n mod 10 ^ k)
      in (if q < 0 then u ''-'' else []) @ digits (n div 10 ^ k) @ u ''.''
           @ replicate (k - length fr) 48 @ fr)"

definition ref_lib :: pylib where
  "ref_lib =
     \<lparr> to_title_full = (\<lambda>c. if 97 \<le> c \<and> c \<le> 122 then [c - 32] else if c = 496 then [74, 780] else [c]),
       lower_ucs4 = (\<lambda>data i c. if 65 \<le> c \<and> c \<le> 90 then [c + 32] else [c]),
       is_cased = (\<lambda>c. (65 \<le> c \<and> c \<le> 90) \<or> (97 \<le> c \<and> c \<le> 122) \<or> c = 496),
       parse_numeric = parse_decimal,
       float_repr = decimal_repr,
       float_of_str = (\<lambda>s. if py_strip s = u ''nan'' then Some NaN else map_option Fin (parse_decimal s)) \<rparr>"

text \<open>
  What a library must do on ASCII for the properties of normalisation that hold on ASCII
  text: letters are the cased code points, and the case mappings are the ASCII ones.
\<close>

definition ascii_letter :: "nat \<Rightarrow> bool" where
  "ascii_letter c = ((65 \<le> c \<and> c \<le> 90) \<or> (97 \<le> c \<and> c \<le> 122))"

definition ascii_upper :: "nat \<Rightarrow> nat" where
  "ascii_upper c = (if 97 \<le> c \<and> c \<le> 122 then c - 32 else c)"

definition ascii_lower :: "nat \<Rightarrow> nat" where
  "ascii_lower c = (if 65 \<le> c \<and> c \<le> 90 then c + 32 else c)"


section \<open>Statements of the specification and worked inputs\<close>



text \<open>A table of two players that has no \<open>EngagementLevel\<close> column.\<close>

definition players_only :: table where
  "players_only = \<lparr> nrows = 2, cols = [(''PlayerID'', [Num 1, Num 2])] \<rparr>"









text \<open>Two players of two genres; the genre with the longer sessions has fewer sessions per
  week.\<close>

definition sessions_example :: table where
  "sessions_example =
     \<lparr> nrows = 2,
       cols = [(''PlayerID'', [Num 1, Num 2]),
               (''GameGenre'', [Txt (u ''Rpg''), Txt (u ''Fps'')]),
               (''AvgSessionDurationMinutes'', [Num 20, Num 10]),
               (''SessionsPerWeek'', [Num 1, Num 5]),
               (''InGamePurchases'', [Num 0, Num 0])] \<rparr>"

text \<open>Two players of two genres with their purchases.\<close>

definition purchases_by_genre_example :: table where
  "purchases_by_genre_example =
     \<lparr> nrows = 2,
       cols = [(''PlayerID'', [Num 1, Num 2]),
               (''GameGenre'', [Txt (u ''Rpg''), Txt (u ''Fps'')]),
               (''InGamePurchases'', [Num 10, Num 20])] \<rparr>"

text \<open>The number of columns of a segment table as the specification counts them, and as the
  aggregation dict gives them: the key, one mean for each of the two session columns, a mean
  and a sum for the purchases, and the count of \<open>PlayerID\<close>.\<close>

definition present :: "table \<Rightarrow> string \<Rightarrow> nat" where
  "present df c = (if c \<in> set (columns df) then 1 else 0)"

definition claimed_column_count :: "table \<Rightarrow> nat" where
  "claimed_column_count df =
     present df ''AvgSessionDurationMinutes'' + present df ''SessionsPerWeek''
       + present df ''InGamePurchases'' + 1 + 1"

definition segment_column_count :: "table \<Rightarrow> nat" where
  "segment_column_count df =
     1 + present df ''AvgSessionDurationMinutes'' + present df ''SessionsPerWeek''
       + 2 * present df ''InGamePurchases'' + present df ''PlayerID''"

section \<open>Lemmas on tables\<close>

lemma map_of_map_named:
  "map_of (map (\<lambda>(n, cs). if n = col then (n, f cs) else (n, cs)) xs) c
     = (if c = col then map_option f (map_of xs c) else map_of xs c)"
  by (induction xs) auto

lemma map_of_assign_map:
  "map_of (cols (assign_map f df col)) c
     = (if c = col then map_option (map f) (map_of (cols df) c) else map_of (cols df) c)"
  unfolding assign_map_def by (simp add: map_of_map_named)

lemma columns_assign_map [simp]: "columns (assign_map f df col) = columns df"
  unfolding assign_map_def columns_def by (simp add: comp_def case_prod_beta)

lemma nrows_assign_map [simp]: "nrows (assign_map f df col) = nrows df"
  unfolding assign_map_def by simp

lemma map_of_absent: "c \<notin> set (columns df) \<Longrightarrow> map_of (cols df) c = None"
  unfolding columns_def by (simp add: map_of_eq_None_iff)

lemma map_of_coerce_col:
  "map_of (cols (coerce_col L df col)) c
     = (if c = col then map_option (map (to_numeric L)) (map_of (cols df) c) else map_of (cols df) c)"
  unfolding coerce_col_def by (simp add: map_of_assign_map map_of_absent)

lemma map_of_normalize_col:
  "map_of (cols (normalize_col L df col)) c
     = (if c = col then map_option (map (normalize_cell L)) (map_of (cols df) c) else map_of (cols df) c)"
  unfolding normalize_col_def by (simp add: map_of_assign_map map_of_absent)

lemma columns_coerce_col [simp]: "columns (coerce_col L df col) = columns df"
  unfolding coerce_col_def by simp

lemma nrows_coerce_col [simp]: "nrows (coerce_col L df col) = nrows df"
  unfolding coerce_col_def by simp

lemma columns_normalize_col [simp]: "columns (normalize_col L df col) = columns df"
  unfolding normalize_col_def by simp

lemma nrows_normalize_col [simp]: "nrows (normalize_col L df col) = nrows df"
  unfolding normalize_col_def by simp

lemma to_numeric_idem [simp]: "to_numeric L (to_numeric L c) = to_numeric L c"
  unfolding to_numeric_def by (simp split: cell.splits option.splits)

lemma columns_foldl_coerce [simp]: "columns (foldl (coerce_col L) df cs) = columns df"
  by (induction cs arbitrary: df) simp_all

lemma nrows_foldl_coerce [simp]: "nrows (foldl (coerce_col L) df cs) = nrows df"
  by (induction cs arbitrary: df) simp_all

text \<open>Coercing a list of columns one after the other coerces each of them once.\<close>

lemma map_of_foldl_coerce:
  "map_of (cols (foldl (coerce_col L) df cs)) c
     = (if c \<in> set cs then map_option (map (to_numeric L)) (map_of (cols df) c) else map_of (cols df) c)"
proof (induction cs arbitrary: df)
  case Nil
  show ?case by simp
next
  case (Cons a cs)
  show ?case
    by (simp add: Cons.IH map_of_coerce_col option.map_comp comp_def)
qed

lemma round_half_even_of_int [simp]: "round_half_even (of_int n) = n"
  unfolding round_half_even_def by (simp add: Let_def)

lemma round_half_even_0 [simp]: "round_half_even 0 = 0"
  using round_half_even_of_int [of 0] by simp

lemma u_simps: "u [] = []" "u (c # s) = of_char c # u s"
  by (simp_all add: u_def)

lemma ref_lib_sel [simp]:
  "to_title_full ref_lib c = (if 97 \<le> c \<and> c \<le> 122 then [c - 32] else if c = 496 then [74, 780] else [c])"
  "lower_ucs4 ref_lib data i c = (if 65 \<le> c \<and> c \<le> 90 then [c + 32] else [c])"
  "is_cased ref_lib c = ((65 \<le> c \<and> c \<le> 90) \<or> (97 \<le> c \<and> c \<le> 122) \<or> c = 496)"
  "parse_numeric ref_lib = parse_decimal"
  by (simp_all add: ref_lib_def)

section \<open>The retention rate\<close>





section \<open>Retention without the column, and the mean KPIs\<close>

lemma retention_nan_if_absent:
  assumes "''EngagementLevel'' \<notin> set (columns df)"
  shows "retention_rate_high_engagement (compute_kpis L df) = NaN"
proof -
  have "map_of (cols (normalize_col L (foldl (coerce_col L) df numeric_cols) ''EngagementLevel'')) ''EngagementLevel'' = None"
    using assms by (simp add: map_of_normalize_col map_of_foldl_coerce map_of_absent)
  then show ?thesis
    by (simp add: compute_kpis_def Let_def round_unless_nan_def isnan_def del: foldl.simps)
qed











section \<open>Properties of the percentage formatter\<close>

















lemma format_percentage_float_not_na: "format_2f f @ u ''%'' \<noteq> u ''n/a''"
proof
  assume "format_2f f @ u ''%'' = u ''n/a''"
  then have "last (format_2f f @ u ''%'') = last (u ''n/a'')" by simp
  then show False by (simp add: u_simps)
qed

text \<open>C10. On the NaN that \<open>compute_kpis\<close> returns as retention rate when the table has no
  \<open>EngagementLevel\<close> column, the formatter returns \<open>nan%\<close>: the conversion of NaN to a float
  succeeds, and \<open>n/a\<close> is returned exactly when the conversion raises.\<close>

theorem format_percentage_nan:
  "(''EngagementLevel'' \<notin> set (columns df) \<longrightarrow>
      format_percentage L (PyFloat (retention_rate_high_engagement (compute_kpis L df))) = u ''nan%'')
   \<and> py_float L (PyFloat NaN) = Inr NaN
   \<and> format_percentage L (PyFloat NaN) = u ''nan%''
   \<and> u ''nan%'' \<noteq> u ''n/a''
   \<and> (format_percentage L x = u ''n/a'' \<longleftrightarrow> (\<exists>e. py_float L x = Inl e))"
proof -
  have n: "format_percentage L (PyFloat NaN) = u ''nan%''"
    by (simp add: format_percentage_def py_float_def fl_mul_def format_2f_def u_simps)
  have "format_percentage L x = u ''n/a'' \<longleftrightarrow> (\<exists>e. py_float L x = Inl e)"
    by (cases "py_float L x") (simp_all add: format_percentage_def format_percentage_float_not_na)
  moreover have "u ''nan%'' \<noteq> u ''n/a''" by (simp add: u_simps)
  ultimately show ?thesis
    using n by (simp add: retention_nan_if_absent py_float_def)
qed

theorem format_percentage_nan_witness:
  "''EngagementLevel'' \<notin> set (columns players_only)
   \<and> format_percentage ref_lib (PyFloat (retention_rate_high_engagement (compute_kpis ref_lib players_only)))
       = u ''nan%''"
proof -
  have h: "''EngagementLevel'' \<notin> set (columns players_only)"
    by (simp add: players_only_def columns_def)
  show ?thesis using h format_percentage_nan [of players_only ref_lib] by blast
qed

section \<open>Normalisation of categorical text\<close>



lemma ascii_letter_mapped [simp]:
  "ascii_letter (ascii_upper c) = ascii_letter c" "ascii_letter (ascii_lower c) = ascii_letter c"
  unfolding ascii_letter_def ascii_upper_def ascii_lower_def by presburger+

lemma ascii_mapped_idem [simp]:
  "ascii_upper (ascii_upper c) = ascii_upper c" "ascii_lower (ascii_lower c) = ascii_lower c"
  unfolding ascii_upper_def ascii_lower_def by presburger+













section \<open>Segment tables\<close>

lemma columns_prepare_segments [simp]: "columns (prepare_segments L df) = columns df"
  by (simp add: prepare_segments_def Let_def)

lemma group_by_absent: "col \<notin> set (columns df) \<Longrightarrow> group_by df col = Inr []"
  by (simp add: group_by_def map_of_absent)

lemma map_of_present:
  assumes "col \<in> set (columns df)"
  shows "\<exists>kc. map_of (cols df) col = Some kc"
proof -
  have "map_of (cols df) col \<noteq> None"
    using assms unfolding columns_def by (simp add: map_of_eq_None_iff)
  then show ?thesis by blast
qed


lemma group_by_Inr:
  assumes "map_of (cols df) col = Some kc"
    and "groupby_agg df kc (filter (\<lambda>(k, v). k \<in> set (columns df)) aggregations) = Inr g"
  shows "group_by df col =
           sort_values_desc
             (reset_index col \<lparr> gindex = gindex g,
                                 gcolumns = map (\<lambda>(l, vs). (rename_label (flatten_label l), vs)) (gcolumns g) \<rparr>)
             (if length (gcolumns g) > 1 then rename_label (flatten_label (fst (gcolumns g ! 1))) else col)"
  using assms by (simp add: group_by_def Let_def case_prod_unfold comp_def)

lemma sort_values_desc_length:
  assumes "label \<in> fst ` set fr"
  shows "\<exists>fr'. sort_values_desc fr label = Inr fr' \<and> length fr' = length fr"
proof -
  have "map_of fr label \<noteq> None" using assms by (simp add: map_of_eq_None_iff)
  then obtain s where "map_of fr label = Some s" by blast
  then show ?thesis by (simp add: sort_values_desc_def Let_def)
qed

lemma sort_label_member:
  "(if length cs > 1 then rename_label (flatten_label (fst (cs ! 1))) else col)
     \<in> fst ` set (reset_index col \<lparr> gindex = ks,
                     gcolumns = map (\<lambda>(l, vs). (rename_label (flatten_label l), vs)) cs \<rparr>)"
proof (cases "length cs > 1")
  case True
  then have "cs ! 1 \<in> set cs" by simp
  then have "rename_label (flatten_label (fst (cs ! 1)))
               \<in> fst ` set (map (\<lambda>(l, vs). (l, NumCol vs)) (map (\<lambda>(l, vs). (rename_label (flatten_label l), vs)) cs))"
    by (force simp: case_prod_unfold)
  then show ?thesis using True by (simp add: reset_index_def)
next
  case False
  then show ?thesis by (simp add: reset_index_def)
qed

lemma length_agg_columns:
  "length (concat (map (\<lambda>(k, v). map (f k) (hows v)) aggs)) = length (concat (map (\<lambda>(k, v). hows v) aggs))"
  by (induction aggs) (auto simp: case_prod_unfold)

lemma available_count:
  "1 + length (concat (map (\<lambda>(k, v). hows v) (filter (\<lambda>(k, v). k \<in> set (columns df)) aggregations)))
     = segment_column_count df"
  by (simp add: aggregations_def hows_def segment_column_count_def present_def)

lemma available_nonempty:
  "1 < segment_column_count df \<Longrightarrow> filter (\<lambda>(k, v). k \<in> set (columns df)) aggregations \<noteq> []"
  by (auto simp: aggregations_def segment_column_count_def present_def split: if_splits)

lemma group_by_columns:
  assumes "col \<in> set (columns df)" "1 < segment_column_count df"
  shows "\<exists>fr. group_by df col = Inr fr \<and> length fr = segment_column_count df"
proof -
  let ?av = "filter (\<lambda>(k, v). k \<in> set (columns df)) aggregations"
  obtain kc where kc: "map_of (cols df) col = Some kc"
    using map_of_present [OF assms(1)] by blast
  have ne: "?av \<noteq> []" using assms(2) by (rule available_nonempty)
  have al: "list_all (\<lambda>(k, v). k \<in> set (columns df)) ?av" by (simp add: list_all_iff)
  define multi where "multi = list_ex (\<lambda>(k, v). is_many v) ?av"
  define g where "g = \<lparr> gindex = group_keys kc,
      gcolumns = concat (map (\<lambda>(k, v).
         map (\<lambda>h. (if multi then Multi k (how_name h) else Flat k,
                    agg_column kc (group_keys kc) (column df k) h)) (hows v)) ?av) \<rparr>"
  have g: "groupby_agg df kc ?av = Inr g"
    unfolding groupby_agg_def g_def multi_def using ne al by (simp add: Let_def)
  have lg: "length (gcolumns g) = length (concat (map (\<lambda>(k, v). hows v) ?av))"
    unfolding g_def by (simp add: length_agg_columns)
  let ?fr = "reset_index col \<lparr> gindex = gindex g,
               gcolumns = map (\<lambda>(l, vs). (rename_label (flatten_label l), vs)) (gcolumns g) \<rparr>"
  have lf: "length ?fr = segment_column_count df"
    using available_count [of df] by (simp add: reset_index_def lg)
  obtain fr' where "group_by df col = Inr fr'" "length fr' = length ?fr"
    unfolding group_by_Inr [OF kc g]
    using sort_values_desc_length [OF sort_label_member] by blast
  then show ?thesis using lf by simp
qed

lemma upt_2: "[0..<2] = [0, Suc 0]"
  by (simp add: numeral_2_eq_2)

lemma flatten_labels:
  "flatten_label (Multi ''AvgSessionDurationMinutes'' ''mean'') = ''AvgSessionDurationMinutes_mean''"
  "flatten_label (Multi ''SessionsPerWeek'' ''mean'') = ''SessionsPerWeek_mean''"
  "flatten_label (Multi ''InGamePurchases'' ''mean'') = ''InGamePurchases_mean''"
  "flatten_label (Multi ''InGamePurchases'' ''sum'') = ''InGamePurchases_sum''"
  "flatten_label (Multi ''PlayerID'' ''count'') = ''PlayerID_count''"
  by (simp_all add: flatten_label_def label_parts_def strip_underscore_def)

lemma keys_genres: "group_keys [Txt (u ''Rpg''), Txt (u ''Fps'')] = [u ''Fps'', u ''Rpg'']"
  by (simp add: group_keys_def u_simps)

lemma argsort_two_desc: "a > b \<Longrightarrow> nargsort_desc [Some (a :: rat), Some b] = [0, 1]"
  by (simp add: nargsort_desc_def upt_2 List.map_filter_simps)

lemma normalize_genres:
  "normalize_cell ref_lib (Txt (u ''Rpg'')) = Txt (u ''Rpg'')"
  "normalize_cell ref_lib (Txt (u ''Fps'')) = Txt (u ''Fps'')"
  by (simp_all add: normalize_cell_def astype_str_def normalize_str_def py_strip_def py_title_def
        is_space_def u_simps)

subsection \<open>A table with no aggregated column\<close>



subsection \<open>The order of the rows\<close>

lemma prepare_sessions_example: "prepare_segments ref_lib sessions_example = sessions_example"
  by (simp add: prepare_segments_def sessions_example_def coerce_col_def normalize_col_def columns_def
        assign_map_def to_numeric_def normalize_genres)

lemma groupby_sessions:
  "groupby_agg sessions_example [Txt (u ''Rpg''), Txt (u ''Fps'')] aggregations =
     Inr \<lparr> gindex = [u ''Fps'', u ''Rpg''],
           gcolumns = [(Multi ''AvgSessionDurationMinutes'' ''mean'', [Fin 10, Fin 20]),
                       (Multi ''SessionsPerWeek'' ''mean'', [Fin 5, Fin 1]),
                       (Multi ''InGamePurchases'' ''mean'', [Fin 0, Fin 0]),
                       (Multi ''InGamePurchases'' ''sum'', [Fin 0, Fin 0]),
                       (Multi ''PlayerID'' ''count'', [Fin 1, Fin 1])] \<rparr>"
  unfolding groupby_agg_def keys_genres
  by (simp add: sessions_example_def aggregations_def columns_def is_many_def hows_def how_name_def
        agg_column_def column_def group_cells_def apply_agg_def series_mean_def series_sum_def
        series_count_def u_simps)

lemma group_by_sessions:
  "group_by sessions_example ''GameGenre'' =
     Inr [(''GameGenre'', KeyCol [u ''Fps'', u ''Rpg'']),
          (''AvgSessionDurationMinutes_mean'', NumCol [Fin 10, Fin 20]),
          (''SessionsPerWeek_mean'', NumCol [Fin 5, Fin 1]),
          (''InGamePurchases_mean'', NumCol [Fin 0, Fin 0]),
          (''InGamePurchases_sum'', NumCol [Fin 0, Fin 0]),
          (''num_players'', NumCol [Fin 1, Fin 1])]"
proof -
  have a: "filter (\<lambda>(k, v). k \<in> set (columns sessions_example)) aggregations = aggregations"
    by (simp add: aggregations_def sessions_example_def columns_def)
  have k: "map_of (cols sessions_example) ''GameGenre'' = Some [Txt (u ''Rpg''), Txt (u ''Fps'')]"
    by (simp add: sessions_example_def)
  have g: "groupby_agg sessions_example [Txt (u ''Rpg''), Txt (u ''Fps'')]
             (filter (\<lambda>(k, v). k \<in> set (columns sessions_example)) aggregations) = Inr
       \<lparr> gindex = [u ''Fps'', u ''Rpg''],
           gcolumns = [(Multi ''AvgSessionDurationMinutes'' ''mean'', [Fin 10, Fin 20]),
                       (Multi ''SessionsPerWeek'' ''mean'', [Fin 5, Fin 1]),
                       (Multi ''InGamePurchases'' ''mean'', [Fin 0, Fin 0]),
                       (Multi ''InGamePurchases'' ''sum'', [Fin 0, Fin 0]),
                       (Multi ''PlayerID'' ''count'', [Fin 1, Fin 1])] \<rparr>"
    unfolding a by (rule groupby_sessions)
  show ?thesis
    unfolding group_by_Inr [OF k g]
    by (simp add: flatten_labels rename_label_def reset_index_def sort_values_desc_def
          series_argsort_desc_def fl_value_def argsort_two_desc series_take_def)
qed

text \<open>C3. On two genres, \<open>Rpg\<close> with sessions of 20 minutes once a week and \<open>Fps\<close> with
  sessions of 10 minutes five times a week, the rows of the genre table come out ordered by
  the mean of \<open>SessionsPerWeek\<close> (the second aggregated column, third of the table), so the
  first aggregated column (second of the table) reads 10, 20 and is not descending.\<close>

theorem segment_rows_sorted_by_second_aggregate:
  "segment_analysis ref_lib sessions_example =
     Inr \<lparr> by_genre =
             [(''GameGenre'', KeyCol [u ''Fps'', u ''Rpg'']),
              (''AvgSessionDurationMinutes_mean'', NumCol [Fin 10, Fin 20]),
              (''SessionsPerWeek_mean'', NumCol [Fin 5, Fin 1]),
              (''InGamePurchases_mean'', NumCol [Fin 0, Fin 0]),
              (''InGamePurchases_sum'', NumCol [Fin 0, Fin 0]),
              (''num_players'', NumCol [Fin 1, Fin 1])],
           by_location = [], by_engagement = [] \<rparr>"
proof -
  have c: "columns sessions_example
             = [''PlayerID'', ''GameGenre'', ''AvgSessionDurationMinutes'', ''SessionsPerWeek'', ''InGamePurchases'']"
    by (simp add: sessions_example_def columns_def)
  have l: "group_by sessions_example ''Location'' = Inr []"
    by (rule group_by_absent) (simp add: c)
  have e: "group_by sessions_example ''EngagementLevel'' = Inr []"
    by (rule group_by_absent) (simp add: c)
  show ?thesis
    by (simp add: segment_analysis_def prepare_sessions_example group_by_sessions l e)
qed

subsection \<open>The number of columns\<close>

lemma prepare_purchases_example:
  "prepare_segments ref_lib purchases_by_genre_example = purchases_by_genre_example"
  by (simp add: prepare_segments_def purchases_by_genre_example_def coerce_col_def normalize_col_def
        columns_def assign_map_def to_numeric_def normalize_genres)

lemma group_by_purchases:
  "group_by purchases_by_genre_example ''GameGenre'' =
     Inr [(''GameGenre'', KeyCol [u ''Fps'', u ''Rpg'']),
          (''InGamePurchases_mean'', NumCol [Fin 20, Fin 10]),
          (''InGamePurchases_sum'', NumCol [Fin 20, Fin 10]),
          (''num_players'', NumCol [Fin 1, Fin 1])]"
proof -
  let ?av = "[(''InGamePurchases'', Many [AggMean, AggSum]), (''PlayerID'', One AggCount)]"
  have a: "filter (\<lambda>(k, v). k \<in> set (columns purchases_by_genre_example)) aggregations = ?av"
    by (simp add: aggregations_def purchases_by_genre_example_def columns_def)
  have k: "map_of (cols purchases_by_genre_example) ''GameGenre'' = Some [Txt (u ''Rpg''), Txt (u ''Fps'')]"
    by (simp add: purchases_by_genre_example_def)
  have "groupby_agg purchases_by_genre_example [Txt (u ''Rpg''), Txt (u ''Fps'')] ?av = Inr
       \<lparr> gindex = [u ''Fps'', u ''Rpg''],
           gcolumns = [(Multi ''InGamePurchases'' ''mean'', [Fin 20, Fin 10]),
                       (Multi ''InGamePurchases'' ''sum'', [Fin 20, Fin 10]),
                       (Multi ''PlayerID'' ''count'', [Fin 1, Fin 1])] \<rparr>"
    unfolding groupby_agg_def keys_genres
    by (simp add: purchases_by_genre_example_def columns_def is_many_def hows_def how_name_def
        agg_column_def column_def group_cells_def apply_agg_def series_mean_def series_sum_def
        series_count_def u_simps)
  then have g: "groupby_agg purchases_by_genre_example [Txt (u ''Rpg''), Txt (u ''Fps'')]
             (filter (\<lambda>(k, v). k \<in> set (columns purchases_by_genre_example)) aggregations) = Inr
       \<lparr> gindex = [u ''Fps'', u ''Rpg''],
           gcolumns = [(Multi ''InGamePurchases'' ''mean'', [Fin 20, Fin 10]),
                       (Multi ''InGamePurchases'' ''sum'', [Fin 20, Fin 10]),
                       (Multi ''PlayerID'' ''count'', [Fin 1, Fin 1])] \<rparr>"
    unfolding a .
  show ?thesis
    unfolding group_by_Inr [OF k g]
    by (simp add: flatten_labels rename_label_def reset_index_def sort_values_desc_def
          series_argsort_desc_def fl_value_def argsort_two_desc series_take_def)
qed

text \<open>C4 as stated fails: with \<open>PlayerID\<close>, \<open>GameGenre\<close> and \<open>InGamePurchases\<close> the genre table
  has four columns (the key, the mean and the sum of the purchases, and \<open>num_players\<close>), where
  the count of the specification is three.\<close>

theorem segment_column_count_counterexample:
  "segment_analysis ref_lib purchases_by_genre_example =
     Inr \<lparr> by_genre =
             [(''GameGenre'', KeyCol [u ''Fps'', u ''Rpg'']),
              (''InGamePurchases_mean'', NumCol [Fin 20, Fin 10]),
              (''InGamePurchases_sum'', NumCol [Fin 20, Fin 10]),
              (''num_players'', NumCol [Fin 1, Fin 1])],
           by_location = [], by_engagement = [] \<rparr>
   \<and> claimed_column_count purchases_by_genre_example = 3
   \<and> map_sum id (length \<circ> by_genre) (segment_analysis ref_lib purchases_by_genre_example)
       \<noteq> Inr (claimed_column_count purchases_by_genre_example)"
proof -
  have c: "columns purchases_by_genre_example = [''PlayerID'', ''GameGenre'', ''InGamePurchases'']"
    by (simp add: purchases_by_genre_example_def columns_def)
  have l: "group_by purchases_by_genre_example ''Location'' = Inr []"
    by (rule group_by_absent) (simp add: c)
  have e: "group_by purchases_by_genre_example ''EngagementLevel'' = Inr []"
    by (rule group_by_absent) (simp add: c)
  have n: "claimed_column_count purchases_by_genre_example = 3"
    by (simp add: claimed_column_count_def present_def c)
  show ?thesis
    by (simp add: segment_analysis_def prepare_purchases_example group_by_purchases l e n)
qed

text \<open>C4 (as the code has it). When at least one of the four aggregated columns is present,
  \<open>segment_analysis\<close> returns, and the table of every grouping column that is present has one
  column for the key, one for each of \<open>AvgSessionDurationMinutes\<close> and \<open>SessionsPerWeek\<close> that
  is present, two for \<open>InGamePurchases\<close> (mean and sum) and one for \<open>PlayerID\<close> (the number of
  players) when they are present.\<close>

theorem segment_columns:
  assumes "1 < segment_column_count df"
  shows "\<exists>segs. segment_analysis L df = Inr segs
           \<and> (''GameGenre'' \<in> set (columns df) \<longrightarrow> length (by_genre segs) = segment_column_count df)
           \<and> (''Location'' \<in> set (columns df) \<longrightarrow> length (by_location segs) = segment_column_count df)
           \<and> (''EngagementLevel'' \<in> set (columns df) \<longrightarrow> length (by_engagement segs) = segment_column_count df)"
proof -
  let ?d = "prepare_segments L df"
  have n: "segment_column_count ?d = segment_column_count df"
    by (simp add: segment_column_count_def present_def)
  have each: "\<exists>fr. group_by ?d col = Inr fr \<and> (col \<in> set (columns df) \<longrightarrow> length fr = segment_column_count df)"
    for col
  proof (cases "col \<in> set (columns df)")
    case True
    then have "col \<in> set (columns ?d)" by simp
    moreover have "1 < segment_column_count ?d" using assms n by simp
    ultimately show ?thesis using group_by_columns [of col ?d] n by auto
  next
    case False
    then show ?thesis by (simp add: group_by_absent)
  qed
  obtain g where g: "group_by ?d ''GameGenre'' = Inr g"
      "''GameGenre'' \<in> set (columns df) \<longrightarrow> length g = segment_column_count df"
    using each [of "''GameGenre''"] by blast
  obtain l where l: "group_by ?d ''Location'' = Inr l"
      "''Location'' \<in> set (columns df) \<longrightarrow> length l = segment_column_count df"
    using each [of "''Location''"] by blast
  obtain e where e: "group_by ?d ''EngagementLevel'' = Inr e"
      "''EngagementLevel'' \<in> set (columns df) \<longrightarrow> length e = segment_column_count df"
    using each [of "''EngagementLevel''"] by blast
  have "segment_analysis L df = Inr \<lparr> by_genre = g, by_location = l, by_engagement = e \<rparr>"
    by (simp add: segment_analysis_def g(1) l(1) e(1))
  then show ?thesis using g(2) l(2) e(2) by simp
qed

theorem segment_columns_witness:
  "segment_column_count purchases_by_genre_example = 4
   \<and> map_sum id (length \<circ> by_genre) (segment_analysis ref_lib purchases_by_genre_example) = Inr 4"
proof -
  have c: "columns purchases_by_genre_example = [''PlayerID'', ''GameGenre'', ''InGamePurchases'']"
    by (simp add: purchases_by_genre_example_def columns_def)
  have n: "segment_column_count purchases_by_genre_example = 4"
    by (simp add: segment_column_count_def present_def c)
  then have h: "1 < segment_column_count purchases_by_genre_example" by simp
  obtain segs where "segment_analysis ref_lib purchases_by_genre_example = Inr segs"
      "''GameGenre'' \<in> set (columns purchases_by_genre_example)
         \<longrightarrow> length (by_genre segs) = segment_column_count purchases_by_genre_example"
    using segment_columns [OF h, of ref_lib] by blast
  then show ?thesis using n by (simp add: c)
qed

end
